theory Spec2Isabelle
  imports Main "HOL-Library.List_Lexorder" "HOL-Library.Char_ord" "HOL-Library.Multiset"
    "HOL-Library.AList"
begin

section \<open>Strings\<close>

text \<open>
  Python \<^verbatim>\<open>str\<close> values are modelled as \<^typ>\<open>string\<close>, one \<^typ>\<open>char\<close> per character, a
  character being a code point below 256.  Whitespace and \<^verbatim>\<open>str.isdigit\<close> are Python's classes
  on these code points; letters and their cases are the ASCII ones.  Image bytes are strings
  too.  Sorting of strings is Python's: by code point, position by position.
\<close>

type_synonym bytes = string

definition replace1 :: "char \<Rightarrow> string \<Rightarrow> string \<Rightarrow> string" where
  \<comment> \<open>\<^verbatim>\<open>s.replace(c, r)\<close> for a one-character \<^verbatim>\<open>c\<close>\<close>
  "replace1 c r s = concat (map (\<lambda>x. if x = c then r else [x]) s)"

definition digit_char :: "nat \<Rightarrow> char" where
  "digit_char d = ''0123456789'' ! (d mod 10)"

function str_nat :: "nat \<Rightarrow> string" where
  "str_nat n = (if n < 10 then [digit_char n] else str_nat (n div 10) @ [digit_char (n mod 10)])"
  by pat_completeness auto
termination
  by (relation "measure id") auto

declare str_nat.simps [simp del]

definition str_int :: "int \<Rightarrow> string" where
  \<comment> \<open>\<^verbatim>\<open>f"{i}"\<close>\<close>
  "str_int i = (if i < 0 then CHR ''-'' # str_nat (nat (- i)) else str_nat (nat i))"

definition is_digit :: "char \<Rightarrow> bool" where
  \<comment> \<open>a decimal digit: the pattern \<^verbatim>\<open>\d\<close>, and what \<^verbatim>\<open>int()\<close> reads\<close>
  "is_digit c = (c \<in> set ''0123456789'')"

definition str_isdigit :: "char \<Rightarrow> bool" where
  \<comment> \<open>\<^verbatim>\<open>str.isdigit\<close>: the decimal digits and the superscript digits two, three and one
      (code points 0xB2, 0xB3 and 0xB9)\<close>
  "str_isdigit c = (is_digit c \<or> c \<in> set [CHR 0xB2, CHR 0xB3, CHR 0xB9])"

definition is_space :: "char \<Rightarrow> bool" where
  \<comment> \<open>the characters \<^verbatim>\<open>str.strip()\<close> removes and \<^verbatim>\<open>\s\<close> matches: space, 0x09-0x0D,
      0x1C-0x1F, 0x85 and 0xA0\<close>
  "is_space c =
     (c \<in> set [CHR '' '', CHR 0x09, CHR 0x0A, CHR 0x0B, CHR 0x0C, CHR 0x0D,
                CHR 0x1C, CHR 0x1D, CHR 0x1E, CHR 0x1F, CHR 0x85, CHR 0xA0])"

definition int_of_digits :: "string \<Rightarrow> nat" where
  \<comment> \<open>\<^verbatim>\<open>int(s)\<close> for a string of decimal digits\<close>
  "int_of_digits s = foldl (\<lambda>a c. 10 * a + (of_char c - 48)) 0 s"

definition zfill3 :: "string \<Rightarrow> string" where
  \<comment> \<open>the padding of the format \<^verbatim>\<open>:03d\<close>\<close>
  "zfill3 s = replicate (3 - length s) (CHR ''0'') @ s"

definition startswith :: "string \<Rightarrow> string \<Rightarrow> bool" where
  "startswith s p = (take (length p) s = p)"

definition endswith :: "string \<Rightarrow> string \<Rightarrow> bool" where
  "endswith s p = (length p \<le> length s \<and> drop (length s - length p) s = p)"

definition is_lower :: "char \<Rightarrow> bool" where
  "is_lower c = (CHR ''a'' \<le> c \<and> c \<le> CHR ''z'')"

definition is_upper :: "char \<Rightarrow> bool" where
  "is_upper c = (CHR ''A'' \<le> c \<and> c \<le> CHR ''Z'')"

definition to_upper :: "char \<Rightarrow> char" where
  "to_upper c = (if is_lower c then char_of (of_char c - (32::nat)) else c)"

definition to_lower :: "char \<Rightarrow> char" where
  "to_lower c = (if is_upper c then char_of (of_char c + (32::nat)) else c)"

definition lower :: "string \<Rightarrow> string" where
  "lower s = map to_lower s"

fun title_from :: "bool \<Rightarrow> string \<Rightarrow> string" where
  \<comment> \<open>\<^verbatim>\<open>str.title()\<close>: a letter is upper-cased when the character before it is not a letter,
      lower-cased otherwise; the flag is "the previous character is a letter"\<close>
  "title_from previous_is_cased [] = []"
| "title_from previous_is_cased (c # s) =
     (if is_lower c then (if previous_is_cased then c else to_upper c) # title_from True s
      else if is_upper c then (if previous_is_cased then to_lower c else c) # title_from True s
      else c # title_from False s)"

definition str_title :: "string \<Rightarrow> string" where
  "str_title s = title_from False s"

fun split_on :: "char \<Rightarrow> string \<Rightarrow> string list" where
  \<comment> \<open>\<^verbatim>\<open>s.split(c)\<close>: never empty, \<^verbatim>\<open>"a--b".split("-") == ["a", "", "b"]\<close>\<close>
  "split_on c [] = [[]]"
| "split_on c (x # s) =
     (if x = c then [] # split_on c s
      else (case split_on c s of [] \<Rightarrow> [[x]] | p # ps \<Rightarrow> (x # p) # ps))"

definition strip_chars :: "(char \<Rightarrow> bool) \<Rightarrow> string \<Rightarrow> string" where
  \<comment> \<open>\<^verbatim>\<open>s.strip()\<close> and \<^verbatim>\<open>s.strip('/')\<close>: both ends\<close>
  "strip_chars P s = rev (dropWhile P (rev (dropWhile P s)))"

definition basename :: "string \<Rightarrow> string" where
  \<comment> \<open>\<^verbatim>\<open>os.path.basename\<close>: what follows the last slash\<close>
  "basename p = last (split_on (CHR ''/'') p)"

definition dirname :: "string \<Rightarrow> string" where
  \<comment> \<open>\<^verbatim>\<open>os.path.dirname\<close>: up to the last slash, trailing slashes removed unless it is all slashes\<close>
  "dirname p =
     (let head = take (length p - length (basename p)) p
      in if head \<noteq> [] \<and> \<not> list_all (\<lambda>c. c = CHR ''/'') head
         then rev (dropWhile (\<lambda>c. c = CHR ''/'') (rev head)) else head)"

definition splitext_root :: "string \<Rightarrow> string" where
  \<comment> \<open>\<^verbatim>\<open>os.path.splitext(b)[0]\<close> for a name without slash: cut at the last dot, unless only
      dots precede it\<close>
  "splitext_root b =
     (let ext = last (split_on (CHR ''.'') b);
          root = take (length b - length ext - 1) b
      in if CHR ''.'' \<in> set b \<and> \<not> list_all (\<lambda>c. c = CHR ''.'') root then root else b)"

section \<open>Metadata: \<^verbatim>\<open>generate_comic_info_xml\<close>\<close>

definition escape_title :: "string \<Rightarrow> string" where
  \<comment> \<open>line 21: three replacements, the ampersand first\<close>
  "escape_title s =
     replace1 (CHR ''>'') ''&gt;'' (replace1 (CHR ''<'') ''&lt;'' (replace1 (CHR ''&'') ''&amp;'' s))"

definition escape_bookmark :: "string \<Rightarrow> string" where
  \<comment> \<open>line 35: the same three, then the double quote\<close>
  "escape_bookmark s =
     replace1 (CHR 0x22) ''&quot;''
       (replace1 (CHR ''>'') ''&gt;'' (replace1 (CHR ''<'') ''&lt;'' (replace1 (CHR ''&'') ''&amp;'' s)))"

definition xml_head :: "string \<Rightarrow> int \<Rightarrow> string" where
  \<comment> \<open>lines 23-29, with the title already escaped\<close>
  "xml_head t n =
     ''<?xml version=\"1.0\" encoding=\"utf-8\"?>\<newline>'' @
     ''<ComicInfo xmlns:xsd=\"http://www.w3.org/2001/XMLSchema\" xmlns:xsi=\"http://www.w3.org/2001/XMLSchema-instance\">\<newline>'' @
     ''  <Series>'' @ t @ ''</Series>\<newline>'' @
     ''  <Title>'' @ t @ ''</Title>\<newline>'' @
     ''  <PageCount>'' @ str_int n @ ''</PageCount>\<newline>'' @
     ''  <Pages>\<newline>''"

definition xml_tail :: string where
  \<comment> \<open>lines 41-43\<close>
  "xml_tail = ''  </Pages>\<newline></ComicInfo>\<newline>''"

definition bookmark_map :: "(int \<times> string) list \<Rightarrow> (int \<rightharpoonup> string)" where
  \<comment> \<open>line 30: the dict comprehension; a later pair overwrites an earlier one with the same index\<close>
  "bookmark_map bookmarks = fold (\<lambda>(page_index, title) m. m(page_index \<mapsto> title)) bookmarks Map.empty"

definition first_bookmark_page :: "(int \<times> string) list \<Rightarrow> int" where
  \<comment> \<open>line 31\<close>
  "first_bookmark_page bookmarks = (case bookmarks of [] \<Rightarrow> - 1 | b # _ \<Rightarrow> fst b)"

definition page_line :: "(int \<times> string) list \<Rightarrow> int \<Rightarrow> string" where
  \<comment> \<open>lines 34-39: the text one loop iteration appends\<close>
  "page_line bookmarks i =
     (case bookmark_map bookmarks i of
        Some title \<Rightarrow>
          (let sanitized_bookmark = escape_bookmark title;
               page_type = (if i = first_bookmark_page bookmarks then ''FrontCover'' else ''Story'')
           in ''    <Page Image=\"'' @ str_int i @ ''\" Bookmark=\"'' @ sanitized_bookmark @
              ''\" Type=\"'' @ page_type @ ''\" />\<newline>'')
      | None \<Rightarrow> ''    <Page Image=\"'' @ str_int i @ ''\" />\<newline>'')"

definition generate_comic_info_xml :: "string \<Rightarrow> (int \<times> string) list \<Rightarrow> int \<Rightarrow> bytes" where
  \<comment> \<open>\<^verbatim>\<open>range(total_page_count)\<close> is \<open>[0..total_page_count - 1]\<close>, empty for a count below 1\<close>
  "generate_comic_info_xml manga_title bookmarks total_page_count =
     (let manga_title = escape_title manga_title;
          xml_content = xml_head manga_title total_page_count;
          xml_content = fold (\<lambda>i xml_content. xml_content @ page_line bookmarks i)
                          [0..total_page_count - 1] xml_content
      in xml_content @ xml_tail)"

section \<open>Files\<close>

text \<open>
  A \<^verbatim>\<open>.cbz\<close> file is a zip archive: the list of its entries, name and content, in the order
  they were written (a name can occur twice).  The files the program reads and replaces are
  a store from path to content; a file that is no zip archive is \<open>Raw\<close>.

  The working directory of a run (\<^verbatim>\<open>temp_dir\<close>) is modelled by what the program looks at:
  its sub-directories by name, and the regular files directly inside each.  Files at the top
  of the working directory and directories nested deeper are left out of it, as the program
  never lists them (\<^verbatim>\<open>os.path.isdir\<close> at line 198, \<^verbatim>\<open>os.path.isfile\<close> at lines 57 and 74); they
  count only for the failure of an extraction, which is decided apart.
  A chapter folder \<^verbatim>\<open>temp_dir/name\<close> is written \<open>name\<close>.

  An input/output failure while an archive is being written is the parameter \<open>fault\<close>:
  \<open>Some k\<close> says that the write of entry number \<open>k\<close> (counted from 0, the metadata entry)
  raises; \<open>None\<close> that no write fails.
\<close>

type_synonym entry = "string \<times> bytes"

datatype file_content = Zip "entry list" | Raw bytes

type_synonym store = "string \<rightharpoonup> file_content"

type_synonym folder = "(string \<times> bytes) list"

type_synonym scratch = "(string \<times> folder) list"

definition makedirs :: "string \<Rightarrow> scratch \<Rightarrow> scratch" where
  \<comment> \<open>\<^verbatim>\<open>os.makedirs(temp_dir/name, exist_ok=True)\<close>\<close>
  "makedirs name scratch =
     (case map_of scratch name of None \<Rightarrow> scratch @ [(name, [])] | Some _ \<Rightarrow> scratch)"

definition write_file :: "string \<Rightarrow> string \<Rightarrow> bytes \<Rightarrow> scratch \<Rightarrow> scratch" where
  \<comment> \<open>create or overwrite \<^verbatim>\<open>temp_dir/name/file_name\<close>, making the directory if needed\<close>
  "write_file name file_name data scratch =
     (case map_of scratch name of
        None \<Rightarrow> scratch @ [(name, [(file_name, data)])]
      | Some files \<Rightarrow> AList.update name (AList.update file_name data files) scratch)"

definition read_file :: "scratch \<Rightarrow> string \<Rightarrow> string \<Rightarrow> bytes option" where
  "read_file scratch name file_name =
     (case map_of scratch name of None \<Rightarrow> None | Some files \<Rightarrow> map_of files file_name)"

section \<open>Archiving: \<^verbatim>\<open>create_cbz_archive\<close>\<close>

definition key_digits :: "string \<Rightarrow> string" where
  \<comment> \<open>line 51: the characters that \<^verbatim>\<open>str.isdigit\<close> keeps of what follows the last hyphen of
      the folder name\<close>
  "key_digits f = filter str_isdigit (last (split_on (CHR ''-'') (basename f)))"

definition sort_key_raises :: "string \<Rightarrow> bool" where
  \<comment> \<open>line 51: \<^verbatim>\<open>int()\<close> raises \<^verbatim>\<open>ValueError\<close> on a superscript digit\<close>
  "sort_key_raises f = list_ex (\<lambda>c. \<not> is_digit c) (key_digits f)"

definition chapter_sort_key :: "string \<Rightarrow> nat" where
  \<comment> \<open>line 51: the digits kept, as a number; 0 when there is no digit\<close>
  "chapter_sort_key f =
     (let digits = key_digits f
      in if digits = [] then 0 else int_of_digits digits)"

definition clean_title :: "string \<Rightarrow> string" where
  \<comment> \<open>lines 55 and 134\<close>
  "clean_title name = str_title (replace1 (CHR ''_'') '' '' (replace1 (CHR ''-'') '' '' name))"

definition scan_folders :: "scratch \<Rightarrow> string list \<Rightarrow> (int \<times> string) list \<times> int" where
  \<comment> \<open>lines 53-58: a folder that is no directory is passed over\<close>
  "scan_folders scratch chapter_folders =
     fold (\<lambda>folder (bookmarks, current_page_index).
             case map_of scratch folder of
               None \<Rightarrow> (bookmarks, current_page_index)
             | Some files \<Rightarrow>
                 (bookmarks @ [(current_page_index, clean_title (basename folder))],
                  current_page_index + int (length files)))
          chapter_folders ([], 0)"

fun write_folders :: "scratch \<Rightarrow> string list \<Rightarrow> entry list \<times> bool" where
  \<comment> \<open>lines 70-76: the entries written, in order, and whether the loop reached its end;
      \<^verbatim>\<open>os.listdir\<close> of a folder that is no directory raises\<close>
  "write_folders scratch [] = ([], True)"
| "write_folders scratch (folder # rest) =
     (case map_of scratch folder of
        None \<Rightarrow> ([], False)
      | Some files \<Rightarrow>
          (let written = map (\<lambda>(image_name, data). (basename folder @ ''/'' @ image_name, data))
                             (sort_key fst files);
               (more, finished) = write_folders scratch rest
           in (written @ more, finished)))"

definition create_cbz_archive ::
  "string \<Rightarrow> string list \<Rightarrow> string option \<Rightarrow> scratch \<Rightarrow> store \<Rightarrow> nat option \<Rightarrow> bool \<times> store" where
  \<comment> \<open>lines 46-80.  An exception is caught at line 78 and gives \<open>False\<close>: in the sort, when a
      key cannot be read as a number, before any file is touched; in a write or in the listing
      of a folder, after the archive file was opened for writing at line 68, which empties
      it, so that the file then holds the entries written before the exception\<close>
  "create_cbz_archive manga_title chapter_folders output_filename scratch store fault =
     (let cbz_file_name = (case output_filename of
                             None \<Rightarrow> manga_title @ ''.cbz''
                           | Some f \<Rightarrow> if f = [] then manga_title @ ''.cbz'' else f)
      in if list_ex sort_key_raises chapter_folders then (False, store)
         else
           (let chapter_folders = sort_key chapter_sort_key chapter_folders;
                (bookmarks, total_images) = scan_folders scratch chapter_folders
            in if total_images = 0 then (False, store)
               else
                 (let comic_info_content = generate_comic_info_xml manga_title bookmarks total_images;
                      (pages, finished) = write_folders scratch chapter_folders;
                      planned = (''ComicInfo.xml'', comic_info_content) # pages
                  in case fault of
                       None \<Rightarrow> (finished, store(cbz_file_name \<mapsto> Zip planned))
                     | Some k \<Rightarrow>
                         if k < length planned
                         then (False, store(cbz_file_name \<mapsto> Zip (take k planned)))
                         else (finished, store(cbz_file_name \<mapsto> Zip planned)))))"

section \<open>Fetching: \<^verbatim>\<open>download_image\<close>, \<^verbatim>\<open>download_chapter_images\<close>\<close>

text \<open>
  The source site is outside the program.  \<open>chapter_page url\<close> is the outcome of the request
  for a chapter page: \<open>None\<close> when it raises \<^verbatim>\<open>RequestException\<close>, else the \<^verbatim>\<open>src\<close> attribute
  (empty when absent) of each \<^verbatim>\<open>img.wp-manga-chapter-img\<close> in document order.
  \<open>image_data url src\<close> is the outcome of the request for \<^verbatim>\<open>urljoin(url, src)\<close>: \<open>None\<close> when
  it raises, else the image bytes.
\<close>

record site =
  chapter_page :: "string \<Rightarrow> string list option"
  image_data :: "string \<Rightarrow> string \<Rightarrow> bytes option"

datatype download_status = Skipped | Downloaded | Failed

definition download_image ::
  "site \<Rightarrow> string \<Rightarrow> string \<Rightarrow> string \<Rightarrow> string \<Rightarrow> scratch \<Rightarrow> download_status \<times> scratch" where
  \<comment> \<open>lines 222-229; the file is \<^verbatim>\<open>temp_dir/chapter_name/file_name\<close>\<close>
  "download_image web chapter_url src chapter_name file_name scratch =
     (if read_file scratch chapter_name file_name \<noteq> None then (Skipped, scratch)
      else case image_data web chapter_url src of
             None \<Rightarrow> (Failed, scratch)
           | Some data \<Rightarrow> (Downloaded, write_file chapter_name file_name data scratch))"

definition page_file :: "nat \<Rightarrow> string" where
  \<comment> \<open>line 241: \<^verbatim>\<open>f"page_{i+1:03d}.jpg"\<close>, for the position \<open>i\<close> counted from 0\<close>
  "page_file i = ''page_'' @ zfill3 (str_nat (i + 1)) @ ''.jpg''"

definition chapter_slug :: "string \<Rightarrow> string" where
  \<comment> \<open>lines 175, 176 and 233: \<^verbatim>\<open>url.strip('/').split('/')[-1]\<close>\<close>
  "chapter_slug url = last (split_on (CHR ''/'') (strip_chars (\<lambda>c. c = CHR ''/'') url))"

definition download_chapter_images :: "site \<Rightarrow> string \<Rightarrow> scratch \<Rightarrow> string option \<times> scratch" where
  \<comment> \<open>lines 231-249; the page downloads write different files, so they are run in task order\<close>
  "download_chapter_images web chapter_url scratch =
     (let chapter_name = chapter_slug chapter_url;
          scratch = makedirs chapter_name scratch
      in case chapter_page web chapter_url of
           None \<Rightarrow> (None, scratch)
         | Some image_tags \<Rightarrow>
             if image_tags = [] then (None, scratch)
             else
               (let tasks = map (\<lambda>(i, src). (strip_chars is_space src, page_file i))
                              (filter (\<lambda>(i, src). strip_chars is_space src \<noteq> [])
                                 (enumerate 0 image_tags));
                    scratch = fold (\<lambda>(src, file_name) scratch.
                                      snd (download_image web chapter_url src chapter_name file_name scratch))
                                tasks scratch
                in (Some chapter_name, scratch)))"

section \<open>Synchronising: the merge of \<^verbatim>\<open>sync_cbz_with_source\<close>\<close>

text \<open>
  \<^verbatim>\<open>zf.extractall(path=temp_dir)\<close> writes every entry below the working directory, a later
  entry over an earlier one and over a downloaded file of the same path.  An entry's path is
  its name cut at the slashes, without the empty, \<^verbatim>\<open>.\<close> and \<^verbatim>\<open>..\<close> parts; a name ending in a
  slash is a directory.

  The extraction raises when a path is needed both as a file and as a directory: when a
  directory above the entry is a file, when a directory entry is a file, when a file entry is
  a directory, or when a file entry has no path at all.  \<open>extract_raises\<close> decides this from
  the directories and the files below the working directory, which it follows entry by
  entry, at every depth.  \<^verbatim>\<open>sync_cbz_with_source\<close> does not catch the exception: the run ends and
  the archive file is as before.
\<close>

definition path_parts :: "string \<Rightarrow> string list" where
  "path_parts name = filter (\<lambda>part. part \<noteq> [] \<and> part \<noteq> ''.'' \<and> part \<noteq> ''..'') (split_on (CHR ''/'') name)"

definition extract_member :: "entry \<Rightarrow> scratch \<Rightarrow> scratch" where
  "extract_member e scratch =
     (case path_parts (fst e) of
        [] \<Rightarrow> scratch
      | [name] \<Rightarrow> if endswith (fst e) ''/'' then makedirs name scratch else scratch
      | name # file_name # deeper \<Rightarrow>
          if deeper = [] \<and> \<not> endswith (fst e) ''/'' then write_file name file_name (snd e) scratch
          else makedirs name scratch)"

definition extractall :: "entry list \<Rightarrow> scratch \<Rightarrow> scratch" where
  "extractall entries scratch = fold extract_member entries scratch"

type_synonym paths = "string list list \<times> string list list"

definition scratch_paths :: "scratch \<Rightarrow> paths" where
  \<comment> \<open>the directories and the files of a working directory that holds chapter folders only\<close>
  "scratch_paths scratch =
     (map (\<lambda>(name, files). [name]) scratch,
      concat (map (\<lambda>(name, files). map (\<lambda>(file_name, data). [name, file_name]) files) scratch))"

definition parent_paths :: "string list \<Rightarrow> string list list" where
  \<comment> \<open>the directories above a path, below the working directory\<close>
  "parent_paths parts = map (\<lambda>k. take k parts) [1..<length parts]"

definition member_raises :: "entry \<Rightarrow> paths \<Rightarrow> bool" where
  "member_raises e known =
     (let parts = path_parts (fst e)
      in list_ex (\<lambda>p. p \<in> set (snd known)) (parent_paths parts) \<or>
         (if endswith (fst e) ''/'' then parts \<in> set (snd known)
          else parts = [] \<or> parts \<in> set (fst known)))"

definition member_paths :: "entry \<Rightarrow> paths \<Rightarrow> paths" where
  "member_paths e known =
     (let parts = path_parts (fst e)
      in if endswith (fst e) ''/'' then (fst known @ parent_paths parts @ [parts], snd known)
         else (fst known @ parent_paths parts, snd known @ [parts]))"

fun extract_raises :: "entry list \<Rightarrow> paths \<Rightarrow> bool" where
  "extract_raises [] known = False"
| "extract_raises (e # es) known =
     (member_raises e known \<or> extract_raises es (member_paths e known))"

definition fetch_all :: "site \<Rightarrow> string list \<Rightarrow> scratch \<Rightarrow> string list \<times> scratch" where
  \<comment> \<open>lines 189-194: the chapters in the order their downloads complete; each download works
      in a folder of its own\<close>
  "fetch_all web urls scratch =
     fold (\<lambda>url (downloaded_chapter_paths, scratch).
             case download_chapter_images web url scratch of
               (None, scratch) \<Rightarrow> (downloaded_chapter_paths, scratch)
             | (Some chapter_path, scratch) \<Rightarrow> (downloaded_chapter_paths @ [chapter_path], scratch))
          urls ([], scratch)"

datatype sync_result =
    Sync_not_found | Sync_aborted | Sync_up_to_date | Sync_complete | Sync_failed | Sync_raised

definition sync_merge ::
  "site \<Rightarrow> (string list \<Rightarrow> string list) \<Rightarrow> string \<Rightarrow> string list \<Rightarrow> store \<Rightarrow> nat option
     \<Rightarrow> sync_result \<times> store" where
  \<comment> \<open>lines 183-204.  \<open>urls\<close> are the chapters to download in the order their downloads
      complete; \<open>listdir_order\<close> is the order in which \<^verbatim>\<open>os.listdir\<close> gives the names of
      the working directory, which Python leaves open\<close>
  "sync_merge web listdir_order cbz_path urls store fault =
     (let (downloaded_chapter_paths, scratch) = fetch_all web urls []
      in case store cbz_path of
           Some (Zip entries) \<Rightarrow>
             if extract_raises entries (scratch_paths scratch) then (Sync_raised, store)
             else
               (let scratch = extractall entries scratch;
                    existing_chapter_folders = listdir_order (map fst scratch);
                    all_chapter_folders = existing_chapter_folders @ downloaded_chapter_paths;
                    manga_title = splitext_root (basename cbz_path);
                    (created, store) = create_cbz_archive manga_title all_chapter_folders
                                         (Some cbz_path) scratch store fault
                in (if created then Sync_complete else Sync_failed, store))
         | _ \<Rightarrow> (Sync_raised, store))"

definition is_image_file :: "string \<Rightarrow> bool" where
  \<comment> \<open>the filter of lines 87 and 111\<close>
  "is_image_file f = (\<not> startswith f ''__MACOSX'' \<and> \<not> endswith f ''/'' \<and> f \<noteq> ''ComicInfo.xml'')"

definition infer_chapter_slugs_from_zip :: "string list \<Rightarrow> string list" where
  \<comment> \<open>lines 84-92, from the archive's list of names; the result stands for a set\<close>
  "infer_chapter_slugs_from_zip names =
     remdups (filter (\<lambda>parent_dir. parent_dir \<noteq> []) (map dirname (filter is_image_file names)))"

definition filter_excluded :: "string list \<Rightarrow> string list \<Rightarrow> string list" where
  \<comment> \<open>lines 174-175\<close>
  "filter_excluded online_urls exclude =
     (if exclude \<noteq> [] then filter (\<lambda>u. chapter_slug u \<notin> set exclude) online_urls
      else online_urls)"

definition missing_slugs :: "string list \<Rightarrow> string list \<Rightarrow> string list" where
  \<comment> \<open>lines 176-178: the slugs of the source that the archive does not have, sorted\<close>
  "missing_slugs local_slugs online_urls =
     sort (filter (\<lambda>slug. slug \<notin> set local_slugs) (remdups (map chapter_slug online_urls)))"

definition urls_for :: "string list \<Rightarrow> string list \<Rightarrow> string list" where
  \<comment> \<open>lines 176 and 182: of two URLs with the same slug the dict keeps the later\<close>
  "urls_for online_urls slugs =
     List.map_filter (map_of (rev (map (\<lambda>url. (chapter_slug url, url)) online_urls))) slugs"

definition sync_cbz_with_source ::
  "site \<Rightarrow> (string list \<Rightarrow> string list) \<Rightarrow> (string list \<Rightarrow> string list) \<Rightarrow> string \<Rightarrow> string list
     \<Rightarrow> string list \<Rightarrow> store \<Rightarrow> nat option \<Rightarrow> sync_result \<times> store" where
  \<comment> \<open>lines 162-204.  \<open>online_urls\<close> is what \<^verbatim>\<open>find_all_chapter_urls\<close> returns, \<open>exclude\<close> the
      excluded slugs, and \<open>completion_order\<close> the order in which the downloads submitted
      complete\<close>
  "sync_cbz_with_source web listdir_order completion_order cbz_path online_urls exclude store fault =
     (case store cbz_path of
        None \<Rightarrow> (Sync_not_found, store)
      | Some (Raw _) \<Rightarrow> (Sync_raised, store)
      | Some (Zip entries) \<Rightarrow>
          (let local_slugs = infer_chapter_slugs_from_zip (map fst entries)
           in if online_urls = [] then (Sync_aborted, store)
              else
                (let online_urls = filter_excluded online_urls exclude;
                     missing = missing_slugs local_slugs online_urls
                 in if missing = [] then (Sync_up_to_date, store)
                    else
                      (let urls_to_download = urls_for online_urls missing
                       in sync_merge web listdir_order cbz_path (completion_order urls_to_download)
                            store fault))))"

section \<open>Metadata for a local archive: \<^verbatim>\<open>update_local_cbz\<close>\<close>

text \<open>
  The pattern \<^verbatim>\<open>([cv]|ch|chapter)\s?(\d+)\<close>, case ignored: \<open>digits_after\<close> reads an optional
  whitespace character and the longest run of digits, \<open>match_here\<close> tries the three
  alternatives in their order at the start of a text, and \<open>chapter_regex_search\<close> gives the
  number of the leftmost match.
\<close>

definition digits_after :: "string \<Rightarrow> nat option" where
  "digits_after r =
     (let r = (case r of [] \<Rightarrow> r | c # r' \<Rightarrow> if is_space c then r' else r);
          digits = takeWhile is_digit r
      in if digits = [] then None else Some (int_of_digits digits))"

definition match_here :: "string \<Rightarrow> nat option" where
  "match_here s =
     (let l = lower s
      in case (if startswith l ''c'' \<or> startswith l ''v'' then digits_after (drop 1 s) else None) of
           Some n \<Rightarrow> Some n
         | None \<Rightarrow>
             (case (if startswith l ''ch'' then digits_after (drop 2 s) else None) of
                Some n \<Rightarrow> Some n
              | None \<Rightarrow> if startswith l ''chapter'' then digits_after (drop 7 s) else None))"

fun chapter_regex_search :: "string \<Rightarrow> nat option" where
  "chapter_regex_search [] = None"
| "chapter_regex_search (c # s) =
     (case match_here (c # s) of Some n \<Rightarrow> Some n | None \<Rightarrow> chapter_regex_search s)"

definition add_item :: "string \<Rightarrow> string \<Rightarrow> (string \<times> string list) list \<Rightarrow> (string \<times> string list) list" where
  \<comment> \<open>\<^verbatim>\<open>chapters.setdefault(key, []).append(item)\<close> on a dict, which keeps the order in which
      its keys were first set\<close>
  "add_item key item chapters =
     (case map_of chapters key of
        None \<Rightarrow> chapters @ [(key, [item])]
      | Some items \<Rightarrow> AList.update key (items @ [item]) chapters)"

definition group_flat :: "string list \<Rightarrow> (string \<times> string list) list" where
  \<comment> \<open>lines 117-122\<close>
  "group_flat image_files =
     fold (\<lambda>item_path chapters.
             let chapter_num = (case chapter_regex_search (basename item_path) of
                                  Some n \<Rightarrow> n | None \<Rightarrow> 0);
                 chapter_key = ''Chapter '' @ zfill3 (str_nat chapter_num)
             in add_item chapter_key item_path chapters)
          image_files []"

definition group_dirs :: "string list \<Rightarrow> (string \<times> string list) list" where
  \<comment> \<open>lines 126-128\<close>
  "group_dirs image_files =
     fold (\<lambda>item_path chapters. add_item (dirname item_path) item_path chapters) image_files []"

definition zip_read :: "entry list \<Rightarrow> string \<Rightarrow> bytes" where
  \<comment> \<open>\<^verbatim>\<open>zf.read(name)\<close> for a name of the archive: the last entry of that name\<close>
  "zip_read entries name = (case map_of (rev entries) name of Some data \<Rightarrow> data | None \<Rightarrow> [])"

datatype update_result =
    Skipping_non_cbz | Error_not_zip | Skipping_exists | Skipping_no_images
  | Skipping_no_chapters | Skipping_no_images_after | Success int nat | Error_raised

definition update_local_cbz ::
  "string \<Rightarrow> string option \<Rightarrow> bool \<Rightarrow> store \<Rightarrow> nat option \<Rightarrow> update_result \<times> store" where
  "update_local_cbz cbz_path custom_title force_overwrite store fault =
     (if \<not> endswith (lower cbz_path) ''.cbz'' then (Skipping_non_cbz, store)
      else case store cbz_path of
        None \<Rightarrow> (Error_not_zip, store)
      | Some (Raw _) \<Rightarrow> (Error_not_zip, store)
      | Some (Zip entries) \<Rightarrow>
          (let temp_cbz_path = cbz_path @ ''.tmp'';
               namelist = map fst entries
           in if ''ComicInfo.xml'' \<in> set namelist \<and> \<not> force_overwrite then (Skipping_exists, store)
              else
                (let image_files = sort (filter is_image_file namelist)
                 in if image_files = [] then (Skipping_no_images, store)
                    else
                      (let flat = (remdups (map dirname image_files) = [[]]);
                           chapters = (if flat then group_flat image_files else group_dirs image_files)
                       in if flat \<and> map fst chapters = [''Chapter 000''] then (Skipping_no_chapters, store)
                          else
                            (let sorted_chapter_keys = sort (map fst chapters);
                                 (bookmarks, total_images) =
                                    fold (\<lambda>chapter_key (bookmarks, current_page_index).
                                            (bookmarks @ [(current_page_index, clean_title chapter_key)],
                                             current_page_index +
                                               int (length (case map_of chapters chapter_key of
                                                              Some items \<Rightarrow> items | None \<Rightarrow> []))))
                                         sorted_chapter_keys ([], 0)
                             in if total_images = 0 then (Skipping_no_images_after, store)
                                else
                                  (let derived = str_title (replace1 (CHR ''-'') '' ''
                                                   (splitext_root (basename cbz_path)));
                                       manga_title = (case custom_title of
                                                        None \<Rightarrow> derived
                                                      | Some t \<Rightarrow> if t = [] then derived else t);
                                       comic_info_content =
                                         generate_comic_info_xml manga_title bookmarks total_images;
                                       planned = (''ComicInfo.xml'', comic_info_content) #
                                         concat (map (\<lambda>(chapter_folder, image_list).
                                                   map (\<lambda>original_image_path.
                                                          (chapter_folder @ ''/'' @ basename original_image_path,
                                                           zip_read entries original_image_path))
                                                       image_list)
                                                 chapters);
                                       failed = (case fault of None \<Rightarrow> False | Some k \<Rightarrow> k < length planned)
                                   in if failed then (Error_raised, store(temp_cbz_path := None))
                                      else (Success total_images (length bookmarks),
                                            store(temp_cbz_path := None, cbz_path \<mapsto> Zip planned))))))))"


section \<open>Notions of the specification\<close>

subsection \<open>Escaped text\<close>




subsection \<open>Page entries\<close>

text \<open>
  A page entry of the metadata document: its image index and, for a chapter start, the
  bookmark label with the type tag.  \<open>last_bookmark\<close> is the title of the last bookmark of
  the list that starts at an index.
\<close>

record page_entry =
  image :: int
  mark :: "(string \<times> string) option"

definition render_page :: "page_entry \<Rightarrow> string" where
  "render_page e =
     (case mark e of
        None \<Rightarrow> ''    <Page Image=\"'' @ str_int (image e) @ ''\" />\<newline>''
      | Some (label, type_tag) \<Rightarrow>
          ''    <Page Image=\"'' @ str_int (image e) @ ''\" Bookmark=\"'' @ label @
          ''\" Type=\"'' @ type_tag @ ''\" />\<newline>'')"

definition last_bookmark :: "(int \<times> string) list \<Rightarrow> int \<Rightarrow> string option" where
  "last_bookmark bookmarks i = map_option snd (find (\<lambda>b. fst b = i) (rev bookmarks))"

subsection \<open>Natural order of slugs\<close>

text \<open>
  The natural order of the specification: a slug is cut into maximal runs of digits and of
  other characters; runs are compared left to right, a run of digits with a run of digits
  as numbers, text with text by code point, and a number comes before text.
\<close>

datatype chunk = Num nat | Txt string

function chunks :: "string \<Rightarrow> chunk list" where
  "chunks [] = []"
| "chunks (c # s) =
     (if is_digit c
      then Num (int_of_digits (c # takeWhile is_digit s)) # chunks (dropWhile is_digit s)
      else Txt (c # takeWhile (\<lambda>x. \<not> is_digit x) s) # chunks (dropWhile (\<lambda>x. \<not> is_digit x) s))"
  by pat_completeness auto
termination
  by (relation "measure length") (auto simp: length_dropWhile_le less_Suc_eq_le)

fun chunks_le :: "chunk list \<Rightarrow> chunk list \<Rightarrow> bool" where
  "chunks_le [] ys = True"
| "chunks_le (x # xs) [] = False"
| "chunks_le (Num a # xs) (Num b # ys) = (a < b \<or> (a = b \<and> chunks_le xs ys))"
| "chunks_le (Txt a # xs) (Txt b # ys) = (a < b \<or> (a = b \<and> chunks_le xs ys))"
| "chunks_le (Num a # xs) (Txt b # ys) = True"
| "chunks_le (Txt a # xs) (Num b # ys) = False"

definition natural_le :: "string \<Rightarrow> string \<Rightarrow> bool" where
  "natural_le a b = chunks_le (chunks a) (chunks b)"

subsection \<open>Archive content\<close>

text \<open>
  The entries one chapter folder gives to an archive, the name of the archive file, and the
  entry names of an archive in the store.
\<close>

definition folder_entries :: "scratch \<Rightarrow> string \<Rightarrow> entry list" where
  "folder_entries scratch folder =
     (case map_of scratch folder of
        None \<Rightarrow> []
      | Some files \<Rightarrow> map (\<lambda>(image_name, data). (basename folder @ ''/'' @ image_name, data))
                        (sort_key fst files))"

definition archive_file_name :: "string \<Rightarrow> string option \<Rightarrow> string" where
  "archive_file_name manga_title output_filename =
     (case output_filename of None \<Rightarrow> manga_title @ ''.cbz''
      | Some f \<Rightarrow> if f = [] then manga_title @ ''.cbz'' else f)"

definition archive_names :: "store \<Rightarrow> string \<Rightarrow> string list" where
  "archive_names store path = (case store path of Some (Zip entries) \<Rightarrow> map fst entries | _ \<Rightarrow> [])"

subsection \<open>Fetched chapters\<close>

text \<open>
  A chapter is acquired when its chapter page is retrieved and lists an image.  The pages a
  download leaves in a new chapter folder are those that were fetched, each under the file
  name of its position in the source's list.  Two sites serve as examples.
\<close>

definition acquired :: "site \<Rightarrow> string \<Rightarrow> bool" where
  "acquired web url = (case chapter_page web url of None \<Rightarrow> False | Some image_tags \<Rightarrow> image_tags \<noteq> [])"

definition fetched_pages :: "site \<Rightarrow> string \<Rightarrow> string list \<Rightarrow> folder" where
  "fetched_pages web url image_tags =
     List.map_filter
       (\<lambda>(i, src). if strip_chars is_space src = [] then None
                   else map_option (\<lambda>data. (page_file i, data))
                          (image_data web url (strip_chars is_space src)))
       (enumerate 0 image_tags)"

definition site_third_fails :: site where
  "site_third_fails =
     \<lparr>chapter_page = (\<lambda>url. Some [''1.jpg'', ''2.jpg'', ''3.jpg'', ''4.jpg'', ''5.jpg'']),
      image_data = (\<lambda>url src. if src = ''3.jpg'' then None else Some (''image '' @ src))\<rparr>"

definition site_all_fail :: site where
  "site_all_fail =
     \<lparr>chapter_page = (\<lambda>url. Some [''1.jpg'', ''2.jpg'']),
      image_data = (\<lambda>url src. None)\<rparr>"

definition chapter_folder :: "site \<Rightarrow> string \<Rightarrow> folder" where
  "chapter_folder web url =
     (case chapter_page web url of
        None \<Rightarrow> []
      | Some image_tags \<Rightarrow> fetched_pages web url image_tags)"

subsection \<open>The merge of existing and fetched pages\<close>





definition archive_pages :: "store \<Rightarrow> string \<Rightarrow> entry list" where
  "archive_pages store path =
     (case store path of
        Some (Zip entries) \<Rightarrow> filter (\<lambda>e. fst e \<noteq> ''ComicInfo.xml'') entries
      | _ \<Rightarrow> [])"


text \<open>
  \<open>fetched_urls\<close> are the chapters a sync submits for download, in the order of submission:
  the URLs of the slugs that lines 174-182 leave.  \<open>merged_scratch\<close> is the working directory
  after the downloads of \<open>urls\<close> and the extraction of the archive.
\<close>

definition fetched_urls :: "string list \<Rightarrow> string list \<Rightarrow> entry list \<Rightarrow> string list" where
  "fetched_urls online_urls exclude entries =
     urls_for (filter_excluded online_urls exclude)
       (missing_slugs (infer_chapter_slugs_from_zip (map fst entries))
          (filter_excluded online_urls exclude))"


section \<open>Metadata: escaping and page entries\<close>


lemma replace1_Nil [simp]: "replace1 c r [] = []"
  by (simp add: replace1_def)

lemma replace1_Cons [simp]: "replace1 c r (x # s) = (if x = c then r else [x]) @ replace1 c r s"
  by (simp add: replace1_def)

lemma replace1_append [simp]: "replace1 c r (s @ t) = replace1 c r s @ replace1 c r t"
  by (simp add: replace1_def)

















lemma fold_append_lines: "fold (\<lambda>i acc. acc @ f i) xs a = a @ concat (map f xs)"
  by (induction xs arbitrary: a) simp_all

lemma generate_unfold:
  "generate_comic_info_xml t bms n =
     xml_head (escape_title t) n @ concat (map (page_line bms) [0..n - 1]) @ xml_tail"
  by (simp add: generate_comic_info_xml_def fold_append_lines)

lemma bookmark_map_fold:
  "fold (\<lambda>(page_index, title) m. m(page_index \<mapsto> title)) bms m = m ++ map_of (rev bms)"
  by (induction bms arbitrary: m) (auto simp: map_add_def fun_eq_iff split: option.splits)

lemma map_of_find: "map_of xs i = map_option snd (find (\<lambda>b. fst b = i) xs)"
  by (induction xs) auto

lemma bookmark_map_last: "bookmark_map bms i = last_bookmark bms i"
  by (simp add: bookmark_map_def bookmark_map_fold last_bookmark_def map_of_find)












lemma render_page_line:
  "render_page \<lparr>image = i, mark =
      (case last_bookmark bms i of None \<Rightarrow> None
       | Some title \<Rightarrow> Some (escape_bookmark title,
           if bms \<noteq> [] \<and> i = fst (hd bms) then ''FrontCover'' else ''Story''))\<rparr>
   = page_line bms i"
proof (cases "last_bookmark bms i")
  case None
  then show ?thesis by (simp add: render_page_def page_line_def bookmark_map_last)
next
  case (Some title)
  then have "bms \<noteq> []" by (auto simp: last_bookmark_def)
  then have "first_bookmark_page bms = fst (hd bms)"
    by (cases bms) (simp_all add: first_bookmark_page_def)
  with Some \<open>bms \<noteq> []\<close> show ?thesis
    by (simp add: render_page_def page_line_def bookmark_map_last Let_def)
qed

text \<open>
  C7, as amended.  The document is the head, one page entry for each index of
  \<open>[0..n - 1]\<close> in order (\<open>n\<close> entries for a count \<open>n\<close> that is not negative), and the tail.
  An index at which some bookmark starts carries the escaped title of the last bookmark of
  the list that starts there, with the type FrontCover when it is the index of the first
  bookmark of the list and Story otherwise; every other index carries no label.
\<close>

theorem page_entries:
  "\<exists>ps. generate_comic_info_xml t bms n =
            xml_head (escape_title t) n @ concat (map render_page ps) @ xml_tail \<and>
        length ps = nat n \<and> map image ps = [0..n - 1] \<and>
        (\<forall>e \<in> set ps. mark e =
           (case last_bookmark bms (image e) of
              None \<Rightarrow> None
            | Some title \<Rightarrow> Some (escape_bookmark title,
                if bms \<noteq> [] \<and> image e = fst (hd bms) then ''FrontCover'' else ''Story'')))"
proof -
  define entry where "entry = (\<lambda>i. \<lparr>image = i, mark =
      (case last_bookmark bms i of None \<Rightarrow> None
       | Some title \<Rightarrow> Some (escape_bookmark title,
           if bms \<noteq> [] \<and> i = fst (hd bms) then ''FrontCover'' else ''Story''))\<rparr>)"
  have r: "map render_page (map entry [0..n - 1]) = map (page_line bms) [0..n - 1]"
    by (simp add: entry_def render_page_line)
  have "generate_comic_info_xml t bms n =
          xml_head (escape_title t) n @ concat (map render_page (map entry [0..n - 1])) @ xml_tail"
    by (simp only: r generate_unfold)
  moreover have "length (map entry [0..n - 1]) = nat n" by simp
  moreover have "map image (map entry [0..n - 1]) = [0..n - 1]"
    by (simp add: entry_def comp_def)
  moreover have "\<forall>e \<in> set (map entry [0..n - 1]). mark e =
           (case last_bookmark bms (image e) of
              None \<Rightarrow> None
            | Some title \<Rightarrow> Some (escape_bookmark title,
                if bms \<noteq> [] \<and> image e = fst (hd bms) then ''FrontCover'' else ''Story''))"
    by (auto simp: entry_def)
  ultimately show ?thesis by blast
qed

theorem page_entries_witness:
  "\<exists>ps. generate_comic_info_xml ''T'' [(0, ''A''), (2, ''B<'')] 3 =
            xml_head ''T'' 3 @ concat (map render_page ps) @ xml_tail \<and>
        map image ps = [0, 1, 2] \<and>
        map mark ps = [Some (''A'', ''FrontCover''), None, Some (''B&lt;'', ''Story'')]"
proof -
  let ?B = "[(0::int, ''A''), (2, ''B<'')]"
  from page_entries[of "''T''" ?B 3] obtain ps where
    doc: "generate_comic_info_xml ''T'' ?B 3 =
            xml_head (escape_title ''T'') 3 @ concat (map render_page ps) @ xml_tail" and
    im: "map image ps = [0..3 - 1]" and
    mk: "\<forall>e \<in> set ps. mark e =
           (case last_bookmark ?B (image e) of
              None \<Rightarrow> None
            | Some title \<Rightarrow> Some (escape_bookmark title,
                if ?B \<noteq> [] \<and> image e = fst (hd ?B) then ''FrontCover'' else ''Story''))"
    by blast
  have up: "[0..(3::int) - 1] = [0, 1, 2]" by (simp add: upto.simps)
  from im up obtain e0 e1 e2 where ps: "ps = [e0, e1, e2]" "image e0 = 0" "image e1 = 1" "image e2 = 2"
    by (auto simp: map_eq_Cons_conv)
  from mk ps have "map mark ps = [Some (''A'', ''FrontCover''), None, Some (''B&lt;'', ''Story'')]"
    by (simp add: last_bookmark_def escape_bookmark_def)
  moreover have "escape_title ''T'' = ''T''" by (simp add: escape_title_def)
  ultimately show ?thesis using doc im up by auto
qed

text \<open>
  C7 as stated fails where two chapters start at the same index (the first of them has no
  page): the index carries the title of the later chapter only.
\<close>

theorem shared_start_index_counterexample:
  "generate_comic_info_xml ''T'' [(0, ''A''), (0, ''B'')] 1 =
     ''<?xml version=\"1.0\" encoding=\"utf-8\"?>\<newline>'' @
     ''<ComicInfo xmlns:xsd=\"http://www.w3.org/2001/XMLSchema\" xmlns:xsi=\"http://www.w3.org/2001/XMLSchema-instance\">\<newline>'' @
     ''  <Series>T</Series>\<newline>'' @
     ''  <Title>T</Title>\<newline>'' @
     ''  <PageCount>1</PageCount>\<newline>'' @
     ''  <Pages>\<newline>'' @
     ''    <Page Image=\"0\" Bookmark=\"B\" Type=\"FrontCover\" />\<newline>'' @
     ''  </Pages>\<newline>'' @
     ''</ComicInfo>\<newline>''"
  by code_simp

text \<open>
  Such bookmarks arise in \<^verbatim>\<open>create_cbz_archive\<close>: a chapter folder without a page gives a
  bookmark at the start index of the chapter after it.
\<close>

lemma empty_chapter_shares_start_index:
  "scan_folders [(''chapter-1'', []), (''chapter-2'', [(''page_001.jpg'', ''x'')])]
     [''chapter-1'', ''chapter-2''] =
   ([(0, ''Chapter 1''), (0, ''Chapter 2'')], 1)"
  by code_simp

section \<open>Archiving: chapter order and refusal of an empty result\<close>

lemma write_folders_entries:
  "write_folders scratch fs = (es, True) \<Longrightarrow> es = concat (map (folder_entries scratch) fs)"
proof (induction fs arbitrary: es)
  case Nil
  then show ?case by simp
next
  case (Cons f fs)
  then show ?case
    by (auto simp: folder_entries_def Let_def split: option.splits prod.splits)
qed

lemma write_folders_all_dirs:
  "write_folders scratch fs = (es, True) \<Longrightarrow> f \<in> set fs \<Longrightarrow> map_of scratch f \<noteq> None"
proof (induction fs arbitrary: es)
  case Nil
  then show ?case by simp
next
  case (Cons g fs)
  then show ?case
    by (auto simp: Let_def split: option.splits prod.splits)
qed

lemma create_cbz_archive_ok:
  assumes "create_cbz_archive t fs out scratch store None = (True, store')"
  shows "\<exists>info. store' = store(archive_file_name t out \<mapsto>
           Zip ((''ComicInfo.xml'', info) #
                concat (map (folder_entries scratch) (sort_key chapter_sort_key fs))))"
proof -
  obtain bms total where sc: "scan_folders scratch (sort_key chapter_sort_key fs) = (bms, total)"
    by (cases "scan_folders scratch (sort_key chapter_sort_key fs)")
  obtain es fin where wf: "write_folders scratch (sort_key chapter_sort_key fs) = (es, fin)"
    by (cases "write_folders scratch (sort_key chapter_sort_key fs)")
  from assms sc wf have "total \<noteq> 0" and fin: "fin" and
    st: "store' = store(archive_file_name t out \<mapsto>
           Zip ((''ComicInfo.xml'', generate_comic_info_xml t bms total) # es))"
    by (auto simp: create_cbz_archive_def archive_file_name_def Let_def split: if_splits)
  from wf fin have "es = concat (map (folder_entries scratch) (sort_key chapter_sort_key fs))"
    by (simp add: write_folders_entries)
  with st show ?thesis by blast
qed

text \<open>
  C4, as amended.  Where \<^verbatim>\<open>create_cbz_archive\<close> writes an archive, the chapters stand in it in
  the order of a stable sort of the folders by the number read from the digits after the last
  hyphen of the slug (0 without a digit): the order is a rearrangement of the folders given,
  ascending in that number, and folders with the same number keep the order they came in.
  So chapter-2 precedes chapter-10 and Chapter 002 precedes Chapter 010.
\<close>

theorem chapter_order:
  assumes "create_cbz_archive t fs out scratch store None = (True, store')"
  shows "\<exists>info ordered.
           store' (archive_file_name t out) =
             Some (Zip ((''ComicInfo.xml'', info) # concat (map (folder_entries scratch) ordered))) \<and>
           mset ordered = mset fs \<and>
           sorted (map chapter_sort_key ordered) \<and>
           (\<forall>k. filter (\<lambda>f. chapter_sort_key f = k) ordered = filter (\<lambda>f. chapter_sort_key f = k) fs) \<and>
           chapter_sort_key ''chapter-2'' < chapter_sort_key ''chapter-10'' \<and>
           chapter_sort_key ''Chapter 002'' < chapter_sort_key ''Chapter 010''"
proof -
  from create_cbz_archive_ok[OF assms] obtain info where
    "store' = store(archive_file_name t out \<mapsto>
           Zip ((''ComicInfo.xml'', info) #
                concat (map (folder_entries scratch) (sort_key chapter_sort_key fs))))"
    by blast
  then have "store' (archive_file_name t out) =
      Some (Zip ((''ComicInfo.xml'', info) #
                concat (map (folder_entries scratch) (sort_key chapter_sort_key fs))))"
    by simp
  moreover have "mset (sort_key chapter_sort_key fs) = mset fs" by simp
  moreover have "sorted (map chapter_sort_key (sort_key chapter_sort_key fs))"
    by (rule sorted_sort_key)
  moreover have "\<forall>k. filter (\<lambda>f. chapter_sort_key f = k) (sort_key chapter_sort_key fs) =
                     filter (\<lambda>f. chapter_sort_key f = k) fs"
    by (simp add: sort_key_stable)
  moreover have "chapter_sort_key ''chapter-2'' < chapter_sort_key ''chapter-10''"
    by code_simp
  moreover have "chapter_sort_key ''Chapter 002'' < chapter_sort_key ''Chapter 010''"
    by code_simp
  ultimately show ?thesis by blast
qed

theorem chapter_order_witness:
  "fst (create_cbz_archive ''m'' [''chapter-10'', ''chapter-2''] None
          [(''chapter-10'', [(''b.jpg'', ''B'')]), (''chapter-2'', [(''a.jpg'', ''A'')])] Map.empty None) \<and>
   (\<exists>info ordered.
      snd (create_cbz_archive ''m'' [''chapter-10'', ''chapter-2''] None
          [(''chapter-10'', [(''b.jpg'', ''B'')]), (''chapter-2'', [(''a.jpg'', ''A'')])] Map.empty None)
        ''m.cbz'' =
        Some (Zip ((''ComicInfo.xml'', info) #
          concat (map (folder_entries
            [(''chapter-10'', [(''b.jpg'', ''B'')]), (''chapter-2'', [(''a.jpg'', ''A'')])]) ordered))) \<and>
      mset ordered = mset [''chapter-10'', ''chapter-2''] \<and>
      sorted (map chapter_sort_key ordered))"
proof -
  let ?S = "[(''chapter-10'', [(''b.jpg'', ''B'')]), (''chapter-2'', [(''a.jpg'', ''A'')])]"
  let ?r = "create_cbz_archive ''m'' [''chapter-10'', ''chapter-2''] None ?S Map.empty None"
  have f: "fst ?r" by code_simp
  then have h: "?r = (True, snd ?r)" by (simp add: prod_eq_iff)
  have n: "archive_file_name ''m'' None = ''m.cbz''" by (simp add: archive_file_name_def)
  from chapter_order[OF h] n f show ?thesis by auto
qed

text \<open>
  C4 as stated fails: the order is not the natural order of the slugs.  Chapter 10.5 is
  written before chapter 6, since only the digits after the last hyphen count.
\<close>

theorem natural_sort_counterexample:
  "sort_key chapter_sort_key [''chapter-6'', ''chapter-10-5''] = [''chapter-10-5'', ''chapter-6''] \<and>
   natural_le ''chapter-6'' ''chapter-10-5'' \<and> \<not> natural_le ''chapter-10-5'' ''chapter-6''"
  by code_simp

lemma scan_folders_fold:
  "snd (fold (\<lambda>folder (bookmarks, current_page_index).
             case map_of scratch folder of
               None \<Rightarrow> (bookmarks, current_page_index)
             | Some files \<Rightarrow>
                 (bookmarks @ [(current_page_index, clean_title (basename folder))],
                  current_page_index + int (length files))) fs (b, n))
   = n + (\<Sum>f\<leftarrow>fs. case map_of scratch f of None \<Rightarrow> 0 | Some files \<Rightarrow> int (length files))"
  by (induction fs arbitrary: b n) (auto split: option.splits)

lemma scan_folders_total:
  "snd (scan_folders scratch fs) =
     (\<Sum>f\<leftarrow>fs. case map_of scratch f of None \<Rightarrow> 0 | Some files \<Rightarrow> int (length files))"
  unfolding scan_folders_def by (simp add: scan_folders_fold)

lemma sum_list_all_zero: "(\<And>x. x \<in> set xs \<Longrightarrow> f x = (0::int)) \<Longrightarrow> (\<Sum>x\<leftarrow>xs. f x) = 0"
  by (induction xs) simp_all

text \<open>
  C8.  When no chapter folder given to \<^verbatim>\<open>create_cbz_archive\<close> holds a page (each folder that
  is a directory is empty), the archive is refused: the result is \<open>False\<close> and the store of
  files is the one before the call, so no archive file is created or changed.  This holds
  whether or not a write would fail.
\<close>

theorem zero_pages_refused:
  assumes "\<forall>f \<in> set fs. \<forall>files. map_of scratch f = Some files \<longrightarrow> files = []"
  shows "create_cbz_archive t fs out scratch store fault = (False, store)"
proof -
  have "(\<Sum>f\<leftarrow>sort_key chapter_sort_key fs.
           case map_of scratch f of None \<Rightarrow> 0 | Some files \<Rightarrow> int (length files)) = 0"
  proof (rule sum_list_all_zero)
    fix f assume "f \<in> set (sort_key chapter_sort_key fs)"
    then have "f \<in> set fs" by simp
    with assms show "(case map_of scratch f of None \<Rightarrow> 0 | Some files \<Rightarrow> int (length files)) = 0"
      by (cases "map_of scratch f") auto
  qed
  then have "snd (scan_folders scratch (sort_key chapter_sort_key fs)) = 0"
    by (simp only: scan_folders_total)
  then obtain bms where "scan_folders scratch (sort_key chapter_sort_key fs) = (bms, 0)"
    by (cases "scan_folders scratch (sort_key chapter_sort_key fs)") simp
  then show ?thesis
    by (simp add: create_cbz_archive_def Let_def)
qed

theorem zero_pages_refused_witness:
  "map_of [(''chapter-1'', [])] ''chapter-1'' = Some [] \<and>
   create_cbz_archive ''m'' [''chapter-1''] (Some ''m.cbz'') [(''chapter-1'', [])]
      [''m.cbz'' \<mapsto> Zip [(''chapter-0/p.jpg'', ''p'')]] None
   = (False, [''m.cbz'' \<mapsto> Zip [(''chapter-0/p.jpg'', ''p'')]]) \<and>
   fst (sync_merge site_all_fail sort ''m.cbz'' [''https://site/manga/m/chapter-1/'']
          [''m.cbz'' \<mapsto> Zip []] None) = Sync_failed \<and>
   snd (sync_merge site_all_fail sort ''m.cbz'' [''https://site/manga/m/chapter-1/'']
          [''m.cbz'' \<mapsto> Zip []] None) ''m.cbz'' = Some (Zip [])"
proof -
  have h: "\<forall>f \<in> set [''chapter-1'']. \<forall>files. map_of [(''chapter-1'', [])] f = Some files \<longrightarrow> files = []"
    by simp
  have s: "fst (sync_merge site_all_fail sort ''m.cbz'' [''https://site/manga/m/chapter-1/'']
          [''m.cbz'' \<mapsto> Zip []] None) = Sync_failed"
    by code_simp
  have t: "snd (sync_merge site_all_fail sort ''m.cbz'' [''https://site/manga/m/chapter-1/'']
          [''m.cbz'' \<mapsto> Zip []] None) ''m.cbz'' = Some (Zip [])"
    by code_simp
  from zero_pages_refused[OF h] s t show ?thesis by simp
qed

lemma download_result:
  "fst (download_chapter_images web url scratch) =
     (if acquired web url then Some (chapter_slug url) else None)"
  by (simp add: download_chapter_images_def acquired_def Let_def split: option.splits)

lemma fetch_all_paths_fold:
  "fst (fold (\<lambda>url (downloaded_chapter_paths, scratch).
             case download_chapter_images web url scratch of
               (None, scratch) \<Rightarrow> (downloaded_chapter_paths, scratch)
             | (Some chapter_path, scratch) \<Rightarrow> (downloaded_chapter_paths @ [chapter_path], scratch))
          urls (acc, s))
   = acc @ map chapter_slug (filter (acquired web) urls)"
proof (induction urls arbitrary: acc s)
  case Nil
  then show ?case by simp
next
  case (Cons u urls)
  obtain r s' where d: "download_chapter_images web u s = (r, s')"
    by (cases "download_chapter_images web u s")
  with download_result[of web u s] have r: "r = (if acquired web u then Some (chapter_slug u) else None)"
    by simp
  show ?case
  proof (cases "acquired web u")
    case True
    with r d Cons.IH[of "acc @ [chapter_slug u]" s'] show ?thesis by simp
  next
    case False
    with r d Cons.IH[of acc s'] show ?thesis by simp
  qed
qed

text \<open>
  C5, as amended.  A chapter sent to \<^verbatim>\<open>download_chapter_images\<close> is returned as acquired
  exactly when its chapter page is retrieved and lists an image, whatever becomes of the
  page downloads; the fetched set of \<^verbatim>\<open>sync_cbz_with_source\<close> is the slugs of these
  chapters, in the order of completion.
\<close>

theorem acquired_by_chapter_page:
  "fst (download_chapter_images web url scratch) =
     (if acquired web url then Some (chapter_slug url) else None) \<and>
   fst (fetch_all web urls scratch) = map chapter_slug (filter (acquired web) urls)"
  by (simp add: download_result fetch_all_def fetch_all_paths_fold)

text \<open>
  C5 as stated fails: a chapter with two pages, both of which fail, is still in the fetched
  set, with an empty folder.
\<close>

theorem all_pages_fail_counterexample:
  "fetch_all site_all_fail [''https://site/manga/m/chapter-1/''] [] =
     ([''chapter-1''], [(''chapter-1'', [])])"
  by code_simp

theorem acquired_by_chapter_page_witness:
  "fst (download_chapter_images site_all_fail ''https://site/manga/m/chapter-1/'' []) = Some ''chapter-1'' \<and>
   fst (fetch_all site_all_fail [''https://site/manga/m/chapter-1/''] []) = [''chapter-1'']"
  using acquired_by_chapter_page[of site_all_fail "''https://site/manga/m/chapter-1/''" "[]"
          "[''https://site/manga/m/chapter-1/'']"]
  by (simp add: acquired_def site_all_fail_def chapter_slug_def strip_chars_def)

section \<open>Fetching: what a download leaves in the chapter folder\<close>

lemma int_of_digits_snoc: "int_of_digits (s @ [c]) = 10 * int_of_digits s + (of_char c - 48)"
  by (simp add: int_of_digits_def)

lemma digit_value: "d < 10 \<Longrightarrow> of_char (digit_char d) - 48 = (d::nat)"
proof -
  assume "d < 10"
  then have "d = 0 \<or> d = 1 \<or> d = 2 \<or> d = 3 \<or> d = 4 \<or> d = 5 \<or> d = 6 \<or> d = 7 \<or> d = 8 \<or> d = 9"
    by arith
  then show ?thesis
    by (elim disjE) (simp_all add: digit_char_def)
qed

lemma int_of_digits_str_nat: "int_of_digits (str_nat n) = n"
proof (induction n rule: str_nat.induct)
  case (1 n)
  show ?case
  proof (cases "n < 10")
    case True
    then show ?thesis
      by (subst str_nat.simps) (simp add: int_of_digits_def digit_value)
  next
    case False
    with 1 have "int_of_digits (str_nat (n div 10)) = n div 10" by simp
    with False show ?thesis
      by (subst str_nat.simps) (simp add: int_of_digits_snoc digit_value)
  qed
qed

lemma int_of_digits_zeros: "foldl (\<lambda>a c. 10 * a + (of_char c - 48)) 0 (replicate k (CHR ''0'')) = (0::nat)"
  by (induction k) simp_all

lemma int_of_digits_zfill3: "int_of_digits (zfill3 s) = int_of_digits s"
  by (simp add: zfill3_def int_of_digits_def int_of_digits_zeros)

lemma page_file_inj: "page_file i = page_file j \<Longrightarrow> i = j"
proof -
  assume "page_file i = page_file j"
  then have "zfill3 (str_nat (i + 1)) = zfill3 (str_nat (j + 1))"
    by (simp add: page_file_def)
  then have "int_of_digits (zfill3 (str_nat (i + 1))) = int_of_digits (zfill3 (str_nat (j + 1)))"
    by simp
  then show "i = j"
    by (simp add: int_of_digits_zfill3 int_of_digits_str_nat)
qed

lemma update_absent: "k \<notin> fst ` set al \<Longrightarrow> AList.update k v al = al @ [(k, v)]"
  by (induction al) auto

lemma update_last: "k \<notin> fst ` set al \<Longrightarrow> AList.update k v (al @ [(k, w)]) = al @ [(k, v)]"
  by (induction al) auto

lemma map_of_last: "k \<notin> fst ` set al \<Longrightarrow> map_of (al @ [(k, w)]) k = Some w"
  by (induction al) auto

lemma download_tasks_fold:
  assumes "slug \<notin> fst ` set s0" "distinct (map fst ps)"
    and "\<forall>p \<in> set ps. page_file (fst p) \<notin> fst ` set P"
  shows "fold (\<lambda>(src, file_name) scratch.
                 snd (download_image web url src slug file_name scratch))
           (map (\<lambda>(i, src). (strip_chars is_space src, page_file i))
              (filter (\<lambda>(i, src). strip_chars is_space src \<noteq> []) ps))
           (s0 @ [(slug, P)])
         = s0 @ [(slug, P @ List.map_filter
              (\<lambda>(i, src). if strip_chars is_space src = [] then None
                   else map_option (\<lambda>data. (page_file i, data))
                          (image_data web url (strip_chars is_space src))) ps)]"
  using assms
proof (induction ps arbitrary: P)
  case Nil
  then show ?case by (simp add: List.map_filter_simps)
next
  case (Cons p ps)
  obtain i src where p: "p = (i, src)" by (cases p)
  from Cons.prems have absent: "map_of P (page_file i) = None"
    by (simp add: p map_of_eq_None_iff)
  have rest: "\<forall>q \<in> set ps. page_file (fst q) \<notin> fst ` set P"
    using Cons.prems by simp
  show ?case
  proof (cases "strip_chars is_space src = []")
    case True
    with Cons.IH[OF Cons.prems(1) _ rest] Cons.prems(2) show ?thesis
      by (simp add: p List.map_filter_simps)
  next
    case False
    show ?thesis
    proof (cases "image_data web url (strip_chars is_space src)")
      case None
      with False absent Cons.IH[OF Cons.prems(1) _ rest] Cons.prems(1,2) show ?thesis
        by (simp add: p List.map_filter_simps download_image_def read_file_def map_of_last)
    next
      case (Some data)
      have fresh: "\<forall>q \<in> set ps. page_file (fst q) \<notin> fst ` set (P @ [(page_file i, data)])"
      proof
        fix q assume q: "q \<in> set ps"
        with Cons.prems(2) have "fst q \<noteq> i" by (auto simp: p)
        then have "page_file (fst q) \<noteq> page_file i" using page_file_inj by blast
        with rest q show "page_file (fst q) \<notin> fst ` set (P @ [(page_file i, data)])" by auto
      qed
      have notin: "page_file i \<notin> fst ` set P"
        using Cons.prems(3) by (simp add: p)
      have step: "snd (download_image web url (strip_chars is_space src) slug (page_file i) (s0 @ [(slug, P)]))
                  = s0 @ [(slug, P @ [(page_file i, data)])]"
        using Some absent Cons.prems(1) notin map_of_last[OF Cons.prems(1), of P]
        by (simp add: download_image_def read_file_def write_file_def update_last update_absent
                 del: map_of_append)
      from Cons.IH[OF Cons.prems(1) _ fresh] Cons.prems(2) False Some step show ?thesis
        by (simp add: p List.map_filter_simps)
    qed
  qed
qed

lemma split_on_nonempty: "split_on c s \<noteq> []"
  by (induction s) (auto split: list.splits)

lemma split_on_parts: "p \<in> set (split_on c s) \<Longrightarrow> c \<notin> set p"
proof (induction s arbitrary: p)
  case Nil
  then show ?case by simp
next
  case (Cons x s)
  show ?case
  proof (cases "x = c")
    case True
    with Cons show ?thesis by auto
  next
    case False
    obtain q qs where q: "split_on c s = q # qs"
      using split_on_nonempty[of c s] by (cases "split_on c s") auto
    with False Cons.prems have "p = x # q \<or> p \<in> set qs" by simp
    with Cons.IH q False show ?thesis by auto
  qed
qed

lemma split_on_no_sep: "c \<notin> set s \<Longrightarrow> split_on c s = [s]"
  by (induction s) auto

lemma chapter_slug_no_slash: "CHR ''/'' \<notin> set (chapter_slug url)"
  unfolding chapter_slug_def
  by (rule split_on_parts[OF last_in_set]) (rule split_on_nonempty)

lemma basename_plain: "CHR ''/'' \<notin> set s \<Longrightarrow> basename s = s"
  by (simp add: basename_def split_on_no_sep)

lemma enumerate_fst_distinct: "distinct (map fst (enumerate n xs))"
  by (simp add: map_fst_enumerate)

lemma download_scratch:
  assumes "chapter_slug url \<notin> fst ` set scratch"
  shows "snd (download_chapter_images web url scratch) =
           scratch @ [(chapter_slug url, chapter_folder web url)]"
proof -
  from assms have "map_of scratch (chapter_slug url) = None"
    by (simp add: map_of_eq_None_iff)
  then have mk: "makedirs (chapter_slug url) scratch = scratch @ [(chapter_slug url, [])]"
    by (simp add: makedirs_def)
  show ?thesis
  proof (cases "chapter_page web url")
    case None
    then show ?thesis
      by (simp add: download_chapter_images_def Let_def mk chapter_folder_def)
  next
    case (Some image_tags)
    have fold: "fold (\<lambda>(src, file_name) scratch.
                 snd (download_image web url src (chapter_slug url) file_name scratch))
           (map (\<lambda>(i, src). (strip_chars is_space src, page_file i))
              (filter (\<lambda>(i, src). strip_chars is_space src \<noteq> []) (enumerate 0 image_tags)))
           (scratch @ [(chapter_slug url, [])])
         = scratch @ [(chapter_slug url, [] @ fetched_pages web url image_tags)]"
      unfolding fetched_pages_def
      by (rule download_tasks_fold[OF assms enumerate_fst_distinct]) simp
    show ?thesis
    proof (cases "image_tags = []")
      case True
      with Some show ?thesis
        by (simp add: download_chapter_images_def Let_def mk chapter_folder_def fetched_pages_def
            List.map_filter_simps)
    next
      case False
      with Some fold show ?thesis
        by (simp add: download_chapter_images_def Let_def mk chapter_folder_def)
    qed
  qed
qed

text \<open>
  C3, as amended.  A chapter download into a working directory that has no folder of the
  chapter's slug yet leaves a folder with exactly the pages whose fetch succeeded, each under
  the file name of its position in the source's list, counted from 1 (\<^verbatim>\<open>page_003.jpg\<close> for the
  third image): a failed page is absent and no page is renamed.  The pages enter the archive
  under these names, below the slug, in the order of the sorted file names.
\<close>

theorem fetched_pages_keep_positions:
  assumes "chapter_page web url = Some image_tags" and "image_tags \<noteq> []"
    and "chapter_slug url \<notin> fst ` set scratch"
  shows "download_chapter_images web url scratch =
           (Some (chapter_slug url), scratch @ [(chapter_slug url, fetched_pages web url image_tags)]) \<and>
         write_folders (scratch @ [(chapter_slug url, fetched_pages web url image_tags)]) [chapter_slug url] =
           (map (\<lambda>(image_name, data). (chapter_slug url @ ''/'' @ image_name, data))
              (sort_key fst (fetched_pages web url image_tags)), True)"
proof -
  have "fst (download_chapter_images web url scratch) = Some (chapter_slug url)"
    using assms(1,2) by (simp add: download_result acquired_def)
  moreover have "snd (download_chapter_images web url scratch) =
      scratch @ [(chapter_slug url, fetched_pages web url image_tags)]"
    using download_scratch[OF assms(3), of web] assms(1) by (simp add: chapter_folder_def)
  ultimately have d: "download_chapter_images web url scratch =
           (Some (chapter_slug url), scratch @ [(chapter_slug url, fetched_pages web url image_tags)])"
    by (simp add: prod_eq_iff)
  have "map_of (scratch @ [(chapter_slug url, fetched_pages web url image_tags)]) (chapter_slug url)
          = Some (fetched_pages web url image_tags)"
    by (rule map_of_last[OF assms(3)])
  then have "write_folders (scratch @ [(chapter_slug url, fetched_pages web url image_tags)]) [chapter_slug url] =
           (map (\<lambda>(image_name, data). (chapter_slug url @ ''/'' @ image_name, data))
              (sort_key fst (fetched_pages web url image_tags)), True)"
    by (simp add: basename_plain[OF chapter_slug_no_slash] del: map_of_append)
  with d show ?thesis by simp
qed

theorem fetched_pages_keep_positions_witness:
  "chapter_page site_third_fails ''https://site/manga/m/chapter-1/'' =
     Some [''1.jpg'', ''2.jpg'', ''3.jpg'', ''4.jpg'', ''5.jpg''] \<and>
   download_chapter_images site_third_fails ''https://site/manga/m/chapter-1/'' [] =
     (Some ''chapter-1'',
      [(''chapter-1'', [(''page_001.jpg'', ''image 1.jpg''), (''page_002.jpg'', ''image 2.jpg''),
                        (''page_004.jpg'', ''image 4.jpg''), (''page_005.jpg'', ''image 5.jpg'')])])"
proof -
  let ?tags = "[''1.jpg'', ''2.jpg'', ''3.jpg'', ''4.jpg'', ''5.jpg'']"
  have a: "chapter_page site_third_fails ''https://site/manga/m/chapter-1/'' = Some ?tags"
    by (simp add: site_third_fails_def)
  have b: "?tags \<noteq> []" by simp
  have c: "chapter_slug ''https://site/manga/m/chapter-1/'' \<notin> fst ` set ([] :: scratch)" by simp
  have s: "chapter_slug ''https://site/manga/m/chapter-1/'' = ''chapter-1''" by code_simp
  have f: "fetched_pages site_third_fails ''https://site/manga/m/chapter-1/'' ?tags =
     [(''page_001.jpg'', ''image 1.jpg''), (''page_002.jpg'', ''image 2.jpg''),
      (''page_004.jpg'', ''image 4.jpg''), (''page_005.jpg'', ''image 5.jpg'')]"
    by code_simp
  from fetched_pages_keep_positions[OF a b c] a s f show ?thesis by simp
qed

text \<open>
  C3 as stated fails: of five pages the third fails, and the four pages are numbered 1, 2, 4
  and 5 in the chapter folder and in the archive.
\<close>

theorem no_renumbering_counterexample:
  "download_chapter_images site_third_fails ''https://site/manga/m/chapter-1/'' [] =
     (Some ''chapter-1'',
      [(''chapter-1'', [(''page_001.jpg'', ''image 1.jpg''), (''page_002.jpg'', ''image 2.jpg''),
                        (''page_004.jpg'', ''image 4.jpg''), (''page_005.jpg'', ''image 5.jpg'')])]) \<and>
   archive_names
     (snd (create_cbz_archive ''m'' [''chapter-1''] None
        [(''chapter-1'', [(''page_001.jpg'', ''image 1.jpg''), (''page_002.jpg'', ''image 2.jpg''),
                          (''page_004.jpg'', ''image 4.jpg''), (''page_005.jpg'', ''image 5.jpg'')])]
        Map.empty None)) ''m.cbz'' =
     [''ComicInfo.xml'', ''chapter-1/page_001.jpg'', ''chapter-1/page_002.jpg'',
      ''chapter-1/page_004.jpg'', ''chapter-1/page_005.jpg'']"
  by code_simp

section \<open>Updates of an archive in place\<close>

text \<open>
  C10.  For an archive that holds an entry named \<^verbatim>\<open>ComicInfo.xml\<close>, \<^verbatim>\<open>update_local_cbz\<close> without
  the force flag returns a skip result and leaves the store of files as it was: the archive
  file is unchanged and no temporary file exists afterwards that did not exist before.
\<close>

theorem skip_when_metadata_present:
  assumes "store cbz_path = Some (Zip entries)" and "''ComicInfo.xml'' \<in> set (map fst entries)"
  shows "update_local_cbz cbz_path custom_title False store fault =
           (if endswith (lower cbz_path) ''.cbz'' then Skipping_exists else Skipping_non_cbz, store)"
  using assms by (simp add: update_local_cbz_def Let_def)

theorem skip_when_metadata_present_witness:
  "[''m.cbz'' \<mapsto> Zip [(''ComicInfo.xml'', ''old''), (''ch1_01.jpg'', ''A'')]] ''m.cbz'' =
     Some (Zip [(''ComicInfo.xml'', ''old''), (''ch1_01.jpg'', ''A'')]) \<and>
   update_local_cbz ''m.cbz'' None False
     [''m.cbz'' \<mapsto> Zip [(''ComicInfo.xml'', ''old''), (''ch1_01.jpg'', ''A'')]] None =
     (Skipping_exists, [''m.cbz'' \<mapsto> Zip [(''ComicInfo.xml'', ''old''), (''ch1_01.jpg'', ''A'')]])"
proof -
  let ?st = "[''m.cbz'' \<mapsto> Zip [(''ComicInfo.xml'', ''old''), (''ch1_01.jpg'', ''A'')]]"
  have a: "?st ''m.cbz'' = Some (Zip [(''ComicInfo.xml'', ''old''), (''ch1_01.jpg'', ''A'')])" by simp
  have b: "''ComicInfo.xml'' \<in> set (map fst [(''ComicInfo.xml'', ''old''), (''ch1_01.jpg'', ''A'')])" by simp
  have c: "endswith (lower ''m.cbz'') ''.cbz''" by code_simp
  from skip_when_metadata_present[of ?st "''m.cbz''" "[(''ComicInfo.xml'', ''old''), (''ch1_01.jpg'', ''A'')]"
         None None, OF a b] c a
  show ?thesis by simp
qed

text \<open>
  The update of \<^verbatim>\<open>update_local_cbz\<close> is built in a temporary file: when a write fails the
  store differs from the one before at most in that the temporary file is gone, and every
  skip leaves the store as it was.
\<close>

lemma update_local_cbz_atomic:
  assumes "update_local_cbz cbz_path custom_title force store fault = (r, store')"
  shows "case r of
           Success n k \<Rightarrow> store' (cbz_path @ ''.tmp'') = None
         | Error_raised \<Rightarrow> store' = store(cbz_path @ ''.tmp'' := None)
         | _ \<Rightarrow> store' = store"
  using assms
  by (auto simp: update_local_cbz_def Let_def
           split: if_splits option.splits file_content.splits prod.splits)

text \<open>
  \<^verbatim>\<open>update_local_cbz\<close> orders the chapter keys as plain text (line 131): chapter-10 comes
  before chapter-2, in the bookmarks and in the archive.
\<close>

lemma update_orders_slugs_as_text:
  "archive_names
     (snd (update_local_cbz ''m.cbz'' None False
        [''m.cbz'' \<mapsto> Zip [(''chapter-2/a.jpg'', ''two''), (''chapter-10/a.jpg'', ''ten'')]] None))
     ''m.cbz'' =
   [''ComicInfo.xml'', ''chapter-10/a.jpg'', ''chapter-2/a.jpg'']"
  by code_simp

text \<open>
  C2 does not hold for the synchronisation: \<^verbatim>\<open>create_cbz_archive\<close> opens the archive file
  itself for writing.  When the write of the first page fails, the synchronisation reports a
  failure and the archive file holds the new metadata entry alone; the chapter it held before
  is lost.
\<close>

theorem sync_fault_destroys_archive:
  "fst (sync_cbz_with_source site_third_fails sort id ''m.cbz''
          [''https://site/manga/m/chapter-1/'', ''https://site/manga/m/chapter-2/''] []
          [''m.cbz'' \<mapsto> Zip [(''chapter-1/page_001.jpg'', ''old'')]] (Some 1)) = Sync_failed \<and>
   archive_names
     (snd (sync_cbz_with_source site_third_fails sort id ''m.cbz''
          [''https://site/manga/m/chapter-1/'', ''https://site/manga/m/chapter-2/''] []
          [''m.cbz'' \<mapsto> Zip [(''chapter-1/page_001.jpg'', ''old'')]] (Some 1))) ''m.cbz'' =
     [''ComicInfo.xml'']"
  by code_simp

section \<open>Synchronising: which pages the new archive holds\<close>




























lemma slug_of_url_for:
  "map_of (rev (map (\<lambda>url. (chapter_slug url, url)) us)) slug = Some u \<Longrightarrow> chapter_slug u = slug"
  by (auto dest!: map_of_SomeD)

lemma url_for_slug:
  "slug \<in> chapter_slug ` set us \<Longrightarrow>
   map_of (rev (map (\<lambda>url. (chapter_slug url, url)) us)) slug \<noteq> None"
  by (simp add: map_of_eq_None_iff image_image)

lemma urls_for_slugs:
  "set slugs \<subseteq> chapter_slug ` set us \<Longrightarrow> map chapter_slug (urls_for us slugs) = slugs"
proof (induction slugs)
  case Nil
  then show ?case by (simp add: urls_for_def List.map_filter_simps)
next
  case (Cons slug slugs)
  then have "slug \<in> chapter_slug ` set us" by simp
  then obtain u where u: "map_of (rev (map (\<lambda>url. (chapter_slug url, url)) us)) slug = Some u"
    using url_for_slug by blast
  then have "chapter_slug u = slug" by (rule slug_of_url_for)
  with Cons u show ?case by (simp add: urls_for_def List.map_filter_simps)
qed

lemma missing_slugs_online: "set (missing_slugs local_slugs us) \<subseteq> chapter_slug ` set us"
  by (auto simp: missing_slugs_def)

lemma fetched_urls_slugs:
  "map chapter_slug (fetched_urls online_urls exclude entries) =
     missing_slugs (infer_chapter_slugs_from_zip (map fst entries)) (filter_excluded online_urls exclude)"
  unfolding fetched_urls_def by (rule urls_for_slugs) (rule missing_slugs_online)




lemma sync_cbz_with_source_fetches:
  assumes "store cbz_path = Some (Zip entries)" and "online_urls \<noteq> []"
    and "fetched_urls online_urls exclude entries \<noteq> []"
  shows "sync_cbz_with_source web listdir_order completion_order cbz_path online_urls exclude store fault
         = sync_merge web listdir_order cbz_path
             (completion_order (fetched_urls online_urls exclude entries)) store fault"
proof -
  from assms(3) have "map chapter_slug (fetched_urls online_urls exclude entries) \<noteq> []" by simp
  then have "missing_slugs (infer_chapter_slugs_from_zip (map fst entries))
               (filter_excluded online_urls exclude) \<noteq> []"
    by (simp add: fetched_urls_slugs)
  with assms(1,2) show ?thesis
    by (simp add: sync_cbz_with_source_def fetched_urls_def Let_def)
qed















text \<open>
  When the source lists no slug that the archive lacks, nothing is downloaded and the archive
  stays as it is.  When it lists one, the pages of the new chapter are written twice.
\<close>

lemma present_slug_not_fetched:
  "fst (sync_cbz_with_source site_third_fails sort id ''m.cbz''
          [''https://site/manga/m/chapter-5/''] []
          [''m.cbz'' \<mapsto> Zip [(''chapter-5/page_001.jpg'', ''old 1'')]] None) = Sync_up_to_date \<and>
   archive_pages
     (snd (sync_cbz_with_source site_third_fails sort id ''m.cbz''
             [''https://site/manga/m/chapter-5/''] []
             [''m.cbz'' \<mapsto> Zip [(''chapter-5/page_001.jpg'', ''old 1'')]] None)) ''m.cbz'' =
     [(''chapter-5/page_001.jpg'', ''old 1'')]"
  by code_simp

lemma sync_adds_fetched_chapter:
  "archive_pages
     (snd (sync_cbz_with_source site_third_fails sort id ''m.cbz''
          [''https://site/manga/m/chapter-1/'', ''https://site/manga/m/chapter-2/''] []
          [''m.cbz'' \<mapsto> Zip [(''chapter-1/page_001.jpg'', ''old 1'')]] None)) ''m.cbz'' =
   [(''chapter-1/page_001.jpg'', ''old 1''),
    (''chapter-2/page_001.jpg'', ''image 1.jpg''), (''chapter-2/page_002.jpg'', ''image 2.jpg''),
    (''chapter-2/page_004.jpg'', ''image 4.jpg''), (''chapter-2/page_005.jpg'', ''image 5.jpg''),
    (''chapter-2/page_001.jpg'', ''image 1.jpg''), (''chapter-2/page_002.jpg'', ''image 2.jpg''),
    (''chapter-2/page_004.jpg'', ''image 4.jpg''), (''chapter-2/page_005.jpg'', ''image 5.jpg'')]"
  by code_simp

section \<open>Synchronising: the order of completion\<close>





















end
